theory Spec2Isabelle
  imports
    Complex_Main
    "HOL-Library.Word"
    "HOL-Library.FSet"
    "HOL-Library.Sublist"
    "HOL-Library.Char_ord"
    "HOL-Library.List_Lexorder"
begin

unbundle bit_operations_syntax

section \<open>The Python values the ledger is built from\<close>

text \<open>
  The ledger engine of \<^verbatim>\<open>kids_blockchain/core.py\<close> works on Python strings, floats and
  unbounded integers, and calls \<^verbatim>\<open>json.dumps\<close> and \<^verbatim>\<open>hashlib.sha256\<close>. This section
  fixes what those are here.

  A Python \<^verbatim>\<open>str\<close> is modelled as a \<^typ>\<open>string\<close> whose characters are the code points
  below 256; \<^verbatim>\<open>int\<close> is \<^typ>\<open>int\<close>.
\<close>

subsection \<open>Strings\<close>

definition py_isspace :: "char \<Rightarrow> bool" where
  \<comment> \<open>the code points below 256 that \<^verbatim>\<open>str.strip()\<close> removes\<close>
  "py_isspace c = ((of_char c :: nat) \<in> {9, 10, 11, 12, 13, 28, 29, 30, 31, 32, 133, 160})"

definition strip :: "string \<Rightarrow> string" where
  "strip s = rev (dropWhile py_isspace (rev (dropWhile py_isspace s)))"

definition upper_char :: "char \<Rightarrow> string" where
  \<comment> \<open>\<^verbatim>\<open>str.upper()\<close> on one code point below 256. The sharp s (223) becomes two
      letters. The micro sign (181) and y with diaeresis (255) have their capital
      outside the range; they are kept, which is as far from an ASCII capital.\<close>
  "upper_char c =
     (let n = (of_char c :: nat) in
      if (97 \<le> n \<and> n \<le> 122) \<or> (224 \<le> n \<and> n \<le> 254 \<and> n \<noteq> 247) then [char_of (n - 32)]
      else if n = 223 then ''SS''
      else [c])"

definition upper :: "string \<Rightarrow> string" where
  "upper s = concat (map upper_char s)"

definition startswith :: "string \<Rightarrow> string \<Rightarrow> bool" where
  "startswith s p = prefix p s"

fun digits_of :: "nat \<Rightarrow> string" where
  "digits_of n =
     (if n < 10 then [char_of (48 + n)] else digits_of (n div 10) @ [char_of (48 + n mod 10)])"

declare digits_of.simps [simp del]

definition str_int :: "int \<Rightarrow> string" where
  \<comment> \<open>\<^verbatim>\<open>str(i)\<close>, which is also how an f-string renders an int\<close>
  "str_int i = (if i < 0 then CHR ''-'' # digits_of (nat (- i)) else digits_of (nat i))"

subsection \<open>Floats\<close>

text \<open>
  A Python \<^verbatim>\<open>float\<close> is an IEEE 754 binary64 value: a finite number (kept as the
  rational it denotes, with the negative zero apart), an infinity or a NaN. Every
  operation below rounds its exact result to the nearest binary64 value, ties to even.
\<close>

datatype pyfloat = Finite rat | NegZero | PosInf | NegInf | NaN

fun bitlen :: "nat \<Rightarrow> nat" where
  "bitlen n = (if n = 0 then 0 else Suc (bitlen (n div 2)))"

declare bitlen.simps [simp del]

definition pow2 :: "int \<Rightarrow> rat" where
  "pow2 e = (if 0 \<le> e then 2 ^ nat e else 1 / 2 ^ nat (- e))"

definition pow10 :: "int \<Rightarrow> rat" where
  "pow10 e = (if 0 \<le> e then 10 ^ nat e else 1 / 10 ^ nat (- e))"

definition ilog2 :: "rat \<Rightarrow> int" where
  \<comment> \<open>the integer part of the binary logarithm of a positive rational\<close>
  "ilog2 q =
     (let (n, d) = quotient_of q;
          k = int (bitlen (nat n)) - int (bitlen (nat d))
      in if pow2 k \<le> q then k else k - 1)"

definition ilog10 :: "rat \<Rightarrow> int" where
  \<comment> \<open>the integer part of the decimal logarithm of a positive rational\<close>
  "ilog10 q =
     (let est = (ilog2 q * 30103) div 100000
      in if pow10 (est + 1) \<le> q then est + 1 else if pow10 est \<le> q then est else est - 1)"

definition round_half_even :: "rat \<Rightarrow> int" where
  "round_half_even x =
     (let f = \<lfloor>x\<rfloor>; r = x - of_int f
      in if r < 1 / 2 then f else if 1 / 2 < r then f + 1 else if even f then f else f + 1)"

definition fl :: "rat \<Rightarrow> pyfloat" where
  \<comment> \<open>the binary64 value nearest to a rational: 53 significant bits, exponents down to
      the subnormal \<open>2\<^sup>-\<^sup>1\<^sup>0\<^sup>7\<^sup>4\<close>, overflow to an infinity\<close>
  "fl q =
     (if q = 0 then Finite 0
      else
        let a = \<bar>q\<bar>;
            e = max (ilog2 a - 52) (- 1074);
            m = round_half_even (a / pow2 e);
            r = of_int m * pow2 e
        in if pow2 1024 \<le> r then (if q < 0 then NegInf else PosInf)
           else if m = 0 then (if q < 0 then NegZero else Finite 0)
           else Finite (if q < 0 then - r else r))"

fun fneg :: "pyfloat \<Rightarrow> pyfloat" where
  "fneg (Finite q) = (if q = 0 then NegZero else Finite (- q))"
| "fneg NegZero = Finite 0"
| "fneg PosInf = NegInf"
| "fneg NegInf = PosInf"
| "fneg NaN = NaN"

fun fadd :: "pyfloat \<Rightarrow> pyfloat \<Rightarrow> pyfloat" where
  "fadd NaN _ = NaN"
| "fadd _ NaN = NaN"
| "fadd PosInf NegInf = NaN"
| "fadd NegInf PosInf = NaN"
| "fadd PosInf _ = PosInf"
| "fadd _ PosInf = PosInf"
| "fadd NegInf _ = NegInf"
| "fadd _ NegInf = NegInf"
| "fadd NegZero y = y"
| "fadd x NegZero = x"
| "fadd (Finite a) (Finite b) = fl (a + b)"

definition fsub :: "pyfloat \<Rightarrow> pyfloat \<Rightarrow> pyfloat" where
  "fsub x y = fadd x (fneg y)"

fun flt :: "pyfloat \<Rightarrow> pyfloat \<Rightarrow> bool" where
  "flt NaN _ = False"
| "flt _ NaN = False"
| "flt PosInf _ = False"
| "flt _ NegInf = False"
| "flt _ PosInf = True"
| "flt NegInf _ = True"
| "flt NegZero NegZero = False"
| "flt NegZero (Finite b) = (0 < b)"
| "flt (Finite a) NegZero = (a < 0)"
| "flt (Finite a) (Finite b) = (a < b)"

fun fle :: "pyfloat \<Rightarrow> pyfloat \<Rightarrow> bool" where
  "fle NaN _ = False"
| "fle _ NaN = False"
| "fle NegInf _ = True"
| "fle _ PosInf = True"
| "fle PosInf _ = False"
| "fle _ NegInf = False"
| "fle NegZero NegZero = True"
| "fle NegZero (Finite b) = (0 \<le> b)"
| "fle (Finite a) NegZero = (a \<le> 0)"
| "fle (Finite a) (Finite b) = (a \<le> b)"

fun round8 :: "pyfloat \<Rightarrow> pyfloat" where
  \<comment> \<open>\<^verbatim>\<open>round(x, 8)\<close>: the exact value is rounded to 8 decimals, ties to even, and the
      decimal read back as a float; infinities, NaN and zeros round to themselves\<close>
  "round8 (Finite q) =
     (let d = round_half_even (q * 10 ^ 8)
      in if d = 0 then (if q < 0 then NegZero else Finite 0) else fl (of_int d / 10 ^ 8))"
| "round8 x = x"

subsection \<open>The text of a float\<close>

definition digits_cand :: "rat \<Rightarrow> nat \<Rightarrow> (int \<times> int) option" where
  \<comment> \<open>the decimal \<open>d * 10\<^sup>p\<close> with \<open>n\<close> significant digits that is nearest to \<open>a\<close>
      among those that read back as \<open>a\<close>, if there is one\<close>
  "digits_cand a n =
     (let p = ilog10 a - int n + 1;
          s = a / pow10 p;
          lo = \<lfloor>s\<rfloor>;
          hi = lo + 1;
          ok_lo = (fl (of_int lo * pow10 p) = Finite a);
          ok_hi = (fl (of_int hi * pow10 p) = Finite a)
      in if ok_lo \<and> ok_hi then
           (if s - of_int lo < of_int hi - s then Some (lo, p)
            else if of_int hi - s < s - of_int lo then Some (hi, p)
            else Some (if even lo then lo else hi, p))
         else if ok_lo then Some (lo, p)
         else if ok_hi then Some (hi, p)
         else None)"

definition shortest_digits :: "rat \<Rightarrow> int \<times> int" where
  \<comment> \<open>the shortest decimal that reads back as the float \<open>a > 0\<close>; 17 digits always do\<close>
  "shortest_digits a =
     (case List.map_filter (digits_cand a) [1 ..< 18] of
        r # _ \<Rightarrow> r
      | [] \<Rightarrow> (round_half_even (a / pow10 (ilog10 a - 16)), ilog10 a - 16))"

definition strip_zeros :: "string \<Rightarrow> string" where
  "strip_zeros ds = rev (dropWhile (\<lambda>c. c = CHR ''0'') (rev ds))"

definition repr_pos :: "rat \<Rightarrow> string" where
  \<comment> \<open>\<^verbatim>\<open>repr\<close> of a positive float: positional notation when the decimal point falls
      within the digits' reach, else the exponent form with at least two exponent digits\<close>
  "repr_pos a =
     (let (d, p) = shortest_digits a;
          full = digits_of (nat d);
          ds = strip_zeros full;
          decpt = int (length full) + p
      in if decpt \<le> - 4 \<or> 16 < decpt then
           (let ex = decpt - 1;
                exs = digits_of (nat \<bar>ex\<bar>)
            in hd ds # (if tl ds = [] then [] else CHR ''.'' # tl ds) @ ''e''
               @ (if ex < 0 then ''-'' else ''+'')
               @ (if length exs < 2 then CHR ''0'' # exs else exs))
         else if decpt \<le> 0 then ''0.'' @ replicate (nat (- decpt)) CHR ''0'' @ ds
         else if int (length ds) \<le> decpt then
           ds @ replicate (nat decpt - length ds) CHR ''0'' @ ''.0''
         else take (nat decpt) ds @ ''.'' @ drop (nat decpt) ds)"

definition repr_finite :: "rat \<Rightarrow> string" where
  "repr_finite q =
     (if q = 0 then ''0.0'' else if q < 0 then CHR ''-'' # repr_pos (- q) else repr_pos q)"

fun str_float :: "pyfloat \<Rightarrow> string" where
  \<comment> \<open>\<^verbatim>\<open>str(x)\<close> and \<^verbatim>\<open>repr(x)\<close>, as an f-string prints a float\<close>
  "str_float (Finite q) = repr_finite q"
| "str_float NegZero = ''-0.0''"
| "str_float PosInf = ''inf''"
| "str_float NegInf = ''-inf''"
| "str_float NaN = ''nan''"

fun json_float :: "pyfloat \<Rightarrow> string" where
  \<comment> \<open>a float in \<^verbatim>\<open>json.dumps\<close> (\<^verbatim>\<open>allow_nan\<close> is on by default)\<close>
  "json_float PosInf = ''Infinity''"
| "json_float NegInf = ''-Infinity''"
| "json_float NaN = ''NaN''"
| "json_float x = str_float x"

subsection \<open>SHA-256\<close>

text \<open>
  \<^verbatim>\<open>hashlib.sha256(data).hexdigest()\<close>: the message is padded to whole 64-byte blocks,
  each block is expanded to 64 words and run through 64 rounds, and the eight state words
  are printed as 64 lowercase hexadecimal characters. Bytes are numbers below 256.
\<close>

type_synonym w32 = "32 word"

definition utf8_encode :: "string \<Rightarrow> nat list" where
  \<comment> \<open>\<^verbatim>\<open>str.encode()\<close>: one byte below 128, two bytes from there to 255\<close>
  "utf8_encode s =
     concat (map (\<lambda>c. let n = (of_char c :: nat)
                      in if n < 128 then [n] else [192 + n div 64, 128 + n mod 64]) s)"

definition be_bytes :: "nat \<Rightarrow> nat \<Rightarrow> nat list" where
  "be_bytes n v = map (\<lambda>i. (v div 256 ^ i) mod 256) (rev [0 ..< n])"

definition sha_pad :: "nat list \<Rightarrow> nat list" where
  "sha_pad bs =
     bs @ [128] @ replicate ((119 - length bs mod 64) mod 64) 0 @ be_bytes 8 (8 * length bs)"

function chunks :: "nat \<Rightarrow> 'a list \<Rightarrow> 'a list list" where
  "chunks n xs = (if n = 0 \<or> xs = [] then [] else take n xs # chunks n (drop n xs))"
  by pat_completeness auto
termination
  by (relation "measure (\<lambda>(n, xs). length xs)") auto

declare chunks.simps [simp del]

definition word_of_bytes :: "nat list \<Rightarrow> w32" where
  "word_of_bytes bs = word_of_nat (foldl (\<lambda>acc b. acc * 256 + b) 0 bs)"

definition rotr :: "nat \<Rightarrow> w32 \<Rightarrow> w32" where
  "rotr n x = drop_bit n x OR push_bit (32 - n) x"

definition ch :: "w32 \<Rightarrow> w32 \<Rightarrow> w32 \<Rightarrow> w32" where
  "ch x y z = (x AND y) XOR (NOT x AND z)"

definition maj :: "w32 \<Rightarrow> w32 \<Rightarrow> w32 \<Rightarrow> w32" where
  "maj x y z = (x AND y) XOR (x AND z) XOR (y AND z)"

definition bsig0 :: "w32 \<Rightarrow> w32" where
  "bsig0 x = rotr 2 x XOR rotr 13 x XOR rotr 22 x"

definition bsig1 :: "w32 \<Rightarrow> w32" where
  "bsig1 x = rotr 6 x XOR rotr 11 x XOR rotr 25 x"

definition ssig0 :: "w32 \<Rightarrow> w32" where
  "ssig0 x = rotr 7 x XOR rotr 18 x XOR drop_bit 3 x"

definition ssig1 :: "w32 \<Rightarrow> w32" where
  "ssig1 x = rotr 17 x XOR rotr 19 x XOR drop_bit 10 x"

definition sha_K :: "w32 list" where
  "sha_K =
  [1116352408, 1899447441, 3049323471, 3921009573, 961987163, 1508970993,
   2453635748, 2870763221, 3624381080, 310598401, 607225278, 1426881987,
   1925078388, 2162078206, 2614888103, 3248222580, 3835390401, 4022224774,
   264347078, 604807628, 770255983, 1249150122, 1555081692, 1996064986,
   2554220882, 2821834349, 2952996808, 3210313671, 3336571891, 3584528711,
   113926993, 338241895, 666307205, 773529912, 1294757372, 1396182291,
   1695183700, 1986661051, 2177026350, 2456956037, 2730485921, 2820302411,
   3259730800, 3345764771, 3516065817, 3600352804, 4094571909, 275423344,
   430227734, 506948616, 659060556, 883997877, 958139571, 1322822218,
   1537002063, 1747873779, 1955562222, 2024104815, 2227730452, 2361852424,
   2428436474, 2756734187, 3204031479, 3329325298]"

definition sha_H0 :: "w32 list" where
  "sha_H0 =
  [1779033703, 3144134277, 1013904242, 2773480762,
   1359893119, 2600822924, 528734635, 1541459225]"

definition extend :: "w32 list \<Rightarrow> w32 list" where
  "extend w =
     (let t = length w
      in w @ [ssig1 (w ! (t - 2)) + w ! (t - 7) + ssig0 (w ! (t - 15)) + w ! (t - 16)])"

definition schedule :: "w32 list \<Rightarrow> w32 list" where
  "schedule blk = (extend ^^ 48) blk"

fun sha_round :: "w32 list \<Rightarrow> w32 \<times> w32 \<Rightarrow> w32 list" where
  "sha_round [a, b, c, d, e, f, g, h] (k, w) =
     (let t1 = h + bsig1 e + ch e f g + k + w;
          t2 = bsig0 a + maj a b c
      in [t1 + t2, a, b, c, d + t1, e, f, g])"
| "sha_round s _ = s"

definition compress :: "w32 list \<Rightarrow> w32 list \<Rightarrow> w32 list" where
  "compress st blk = map2 (+) st (foldl sha_round st (zip sha_K (schedule blk)))"

definition hex_digit :: "nat \<Rightarrow> char" where
  "hex_digit n = (if n < 10 then char_of (48 + n) else char_of (87 + n))"

definition hex_word :: "w32 \<Rightarrow> string" where
  "hex_word w = map (\<lambda>i. hex_digit ((unat w div 16 ^ i) mod 16)) (rev [0 ..< 8])"

definition sha256_hexdigest :: "nat list \<Rightarrow> string" where
  "sha256_hexdigest bs =
     concat (map hex_word
       (foldl compress sha_H0 (chunks 16 (map word_of_bytes (chunks 4 (sha_pad bs))))))"

subsection \<open>JSON text\<close>

definition json_escape_char :: "char \<Rightarrow> string" where
  \<comment> \<open>\<^verbatim>\<open>ensure_ascii\<close> is on: only printable ASCII other than the quote and the
      backslash stands for itself\<close>
  "json_escape_char c =
     (let n = (of_char c :: nat); bs = char_of (92 :: nat)
      in if n = 34 \<or> n = 92 then [bs, c]
         else if n = 10 then [bs, CHR ''n'']
         else if n = 13 then [bs, CHR ''r'']
         else if n = 9 then [bs, CHR ''t'']
         else if n = 8 then [bs, CHR ''b'']
         else if n = 12 then [bs, CHR ''f'']
         else if n < 32 \<or> 126 < n then
           [bs, CHR ''u'', CHR ''0'', CHR ''0'', hex_digit (n div 16), hex_digit (n mod 16)]
         else [c])"

definition json_str :: "string \<Rightarrow> string" where
  "json_str s = char_of (34 :: nat) # concat (map json_escape_char s) @ [char_of (34 :: nat)]"

fun join :: "string \<Rightarrow> string list \<Rightarrow> string" where
  "join sep [] = []"
| "join sep [x] = x"
| "join sep (x # y # ys) = x @ sep @ join sep (y # ys)"

section \<open>The ledger: \<^verbatim>\<open>kids_blockchain/core.py\<close>\<close>

subsection \<open>Transaction, Block, Blockchain\<close>

text \<open>
  The dataclass \<^verbatim>\<open>Transaction\<close>; its fields \<^verbatim>\<open>note\<close> and \<^verbatim>\<open>timestamp\<close> are \<open>tx_note\<close> and
  \<open>tx_timestamp\<close> here (the first name is a keyword, the second is the block's).
\<close>

record transaction =
  sender :: string
  recipient :: string
  amount :: pyfloat
  tx_note :: string
  tx_timestamp :: string

record block =
  index :: int
  timestamp :: string
  transactions :: "transaction list"
  previous_hash :: string
  nonce :: int
  hash :: string

text \<open>
  The attributes of a \<^verbatim>\<open>Blockchain\<close>. A Python set is finite, hence the finite set of
  users. The constructor stores \<^verbatim>\<open>max(0, int(difficulty))\<close>, so the difficulty is a
  natural number.
\<close>

record blockchain =
  chain :: "block list"
  pending :: "transaction list"
  users :: "string fset"
  difficulty :: nat
  reward :: pyfloat

datatype error = ValueError string | IndexError | KeyError string | TypeError

subsection \<open>The hasher\<close>

definition dumps_tx :: "transaction \<Rightarrow> string" where
  \<comment> \<open>\<^verbatim>\<open>json.dumps(t.to_dict(), sort_keys=True)\<close>: the five fields, keys in order\<close>
  "dumps_tx t =
     ''{'' @ json_str ''amount'' @ '': '' @ json_float (amount t) @ '', ''
       @ json_str ''note'' @ '': '' @ json_str (tx_note t) @ '', ''
       @ json_str ''recipient'' @ '': '' @ json_str (recipient t) @ '', ''
       @ json_str ''sender'' @ '': '' @ json_str (sender t) @ '', ''
       @ json_str ''timestamp'' @ '': '' @ json_str (tx_timestamp t) @ ''}''"

definition dumps_txs :: "transaction list \<Rightarrow> string" where
  "dumps_txs txs = ''['' @ join '', '' (map dumps_tx txs) @ '']''"

definition hash_block :: "int \<Rightarrow> string \<Rightarrow> transaction list \<Rightarrow> string \<Rightarrow> int \<Rightarrow> string" where
  \<comment> \<open>\<^verbatim>\<open>Blockchain._hash_block\<close>\<close>
  "hash_block i ts txs prev n =
     (let tx_json = dumps_txs txs;
          block_string = str_int i @ ''|'' @ ts @ ''|'' @ tx_json @ ''|'' @ prev @ ''|'' @ str_int n
      in sha256_hexdigest (utf8_encode block_string))"

subsection \<open>Construction\<close>

text \<open>
  \<^verbatim>\<open>_now()\<close> reads the clock. Every operation that reads it takes the strings the
  clock returns during the call as arguments, in the order of the reads.
\<close>

definition new_block :: "blockchain \<Rightarrow> string \<Rightarrow> string \<Rightarrow> transaction list \<Rightarrow> block" where
  \<comment> \<open>\<^verbatim>\<open>Blockchain._new_block\<close>\<close>
  "new_block bc now prev txs =
     (let i = int (length (chain bc))
      in \<lparr>index = i, timestamp = now, transactions = txs, previous_hash = prev,
          nonce = 0, hash = hash_block i now txs prev 0\<rparr>)"

definition create_genesis :: "blockchain \<Rightarrow> string \<Rightarrow> string \<Rightarrow> blockchain" where
  \<comment> \<open>\<^verbatim>\<open>Blockchain._create_genesis\<close>\<close>
  "create_genesis bc now1 now2 =
     (let genesis_tx = \<lparr>sender = ''SYSTEM'', recipient = ''GENESIS'', amount = Finite 0,
                         tx_note = ''Genesis'', tx_timestamp = now1\<rparr>;
          blk = new_block bc now2 (replicate 64 CHR ''0'') [genesis_tx]
      in bc\<lparr>chain := chain bc @ [blk]\<rparr>)"

definition Blockchain :: "int \<Rightarrow> pyfloat \<Rightarrow> string \<Rightarrow> string \<Rightarrow> blockchain" where
  \<comment> \<open>\<^verbatim>\<open>Blockchain.__init__\<close>\<close>
  "Blockchain d r now1 now2 =
     create_genesis
       \<lparr>chain = [], pending = [], users = {||}, difficulty = nat (max 0 d), reward = r\<rparr>
       now1 now2"

subsection \<open>Users and balances\<close>

definition add_user :: "blockchain \<Rightarrow> string \<Rightarrow> bool \<times> blockchain" where
  \<comment> \<open>\<^verbatim>\<open>Blockchain.add_user\<close>: the answer and the ledger afterwards\<close>
  "add_user bc name0 =
     (let name = strip name0
      in if name = [] \<or> upper name = ''SYSTEM'' then (False, bc)
         else if name |\<in>| users bc then (False, bc)
         else (True, bc\<lparr>users := finsert name (users bc)\<rparr>))"

definition chain_step :: "string \<Rightarrow> pyfloat \<Rightarrow> transaction \<Rightarrow> pyfloat" where
  \<comment> \<open>the body of the loop over a block's transactions\<close>
  "chain_step name balance tx =
     (let balance = (if sender tx = name then fsub balance (amount tx) else balance)
      in if recipient tx = name then fadd balance (amount tx) else balance)"

definition pending_step :: "string \<Rightarrow> pyfloat \<Rightarrow> transaction \<Rightarrow> pyfloat" where
  \<comment> \<open>the body of the loop over the pending transactions\<close>
  "pending_step name balance tx =
     (if sender tx = name then fsub balance (amount tx) else balance)"

definition get_balance :: "blockchain \<Rightarrow> string \<Rightarrow> pyfloat" where
  \<comment> \<open>\<^verbatim>\<open>Blockchain.get_balance\<close>\<close>
  "get_balance bc name =
     (let balance = foldl (\<lambda>balance blk. foldl (chain_step name) balance (transactions blk))
                      (Finite 0) (chain bc);
          balance = foldl (pending_step name) balance (pending bc)
      in round8 balance)"

subsection \<open>Admitting a transaction\<close>

text \<open>
  \<^verbatim>\<open>float(amount)\<close> either raises \<^verbatim>\<open>ValueError\<close> (a string that is no number) or
  returns a float; \<open>amount_arg\<close> is that outcome. The shell passes the user's text, the
  annotation asks for a float.
\<close>

datatype amount_arg = Unparsable | Parsed pyfloat

definition quote1 :: string where
  "quote1 = [char_of (39 :: nat)]"

definition add_transaction ::
    "blockchain \<Rightarrow> string \<Rightarrow> string \<Rightarrow> amount_arg \<Rightarrow> string \<Rightarrow> string \<Rightarrow> string option \<times> blockchain" where
  \<comment> \<open>\<^verbatim>\<open>Blockchain.add_transaction\<close>: the returned message (\<open>None\<close> on success) and the
      ledger afterwards; \<open>now\<close> is the clock's answer\<close>
  "add_transaction bc sndr rcpt amt nt now =
     (case amt of
        Unparsable \<Rightarrow> (Some ''Amount must be a number.'', bc)
      | Parsed a \<Rightarrow>
          if fle a (Finite 0) then (Some ''Amount must be positive.'', bc)
          else if sndr \<noteq> ''SYSTEM'' \<and> sndr |\<notin>| users bc then
            (Some (''Unknown sender '' @ quote1 @ sndr @ quote1 @ ''.''), bc)
          else if rcpt |\<notin>| users bc \<and> rcpt \<noteq> ''GENESIS'' then
            (Some (''Unknown recipient '' @ quote1 @ rcpt @ quote1 @ ''.''), bc)
          else if sndr \<noteq> ''SYSTEM'' \<and> flt (get_balance bc sndr) a then
            (Some (''Insufficient funds: '' @ sndr @ '' has ''
                   @ str_float (get_balance bc sndr) @ ''.''), bc)
          else
            (let tx = \<lparr>sender = sndr, recipient = rcpt, amount = a, tx_note = nt,
                       tx_timestamp = now\<rparr>
             in (None, bc\<lparr>pending := pending bc @ [tx]\<rparr>)))"

subsection \<open>Mining\<close>

text \<open>
  The proof-of-work loop has no bound, so it is a partial function: \<open>None\<close> is the loop
  that never ends.
\<close>

definition bump :: "block \<Rightarrow> block" where
  \<comment> \<open>the body of the loop: the next nonce, then the hash of the block as it now is\<close>
  "bump blk =
     (let blk = blk\<lparr>nonce := nonce blk + 1\<rparr>
      in blk\<lparr>hash := hash_block (index blk) (timestamp blk) (transactions blk)
                       (previous_hash blk) (nonce blk)\<rparr>)"

partial_function (option) proof_of_work :: "string \<Rightarrow> block \<Rightarrow> block option" where
  "proof_of_work target_prefix blk =
     (if \<not> startswith (hash blk) target_prefix then proof_of_work target_prefix (bump blk)
      else Some blk)"

declare proof_of_work.simps [code]

definition mine ::
    "blockchain \<Rightarrow> string \<Rightarrow> string \<Rightarrow> string \<Rightarrow> ((error + block) \<times> blockchain) option" where
  \<comment> \<open>\<^verbatim>\<open>Blockchain.mine\<close>: the exception raised or the block returned, with the ledger
      afterwards; \<open>now1\<close> and \<open>now2\<close> are the clock's two answers\<close>
  "mine bc miner now1 now2 =
     (if miner |\<notin>| users bc then Some (Inl (ValueError ''Miner must be a known user.''), bc)
      else
        let reward_tx = \<lparr>sender = ''SYSTEM'', recipient = miner, amount = reward bc,
                          tx_note = ''Mining reward'', tx_timestamp = now1\<rparr>;
            txs = pending bc @ [reward_tx]
        in if chain bc = [] then Some (Inl IndexError, bc)
           else
             let prev = hash (last (chain bc));
                 blk = new_block bc now2 prev txs;
                 target_prefix = replicate (difficulty bc) CHR ''0''
             in case proof_of_work target_prefix blk of
                  None \<Rightarrow> None
                | Some b \<Rightarrow> Some (Inr b, bc\<lparr>chain := chain bc @ [b], pending := []\<rparr>))"

subsection \<open>Export and import\<close>

text \<open>
  A snapshot is the dictionary \<^verbatim>\<open>to_dict\<close> builds and \<^verbatim>\<open>from_dict\<close> reads. Each key is
  present (\<open>Some\<close>) or absent (\<open>None\<close>); a value that is present has the type the ledger
  holds. Keys other than the ones below are not modelled.
\<close>

record tx_dict =
  d_sender :: "string option"
  d_recipient :: "string option"
  d_amount :: "pyfloat option"
  d_note :: "string option"
  d_timestamp :: "string option"

record block_dict =
  b_index :: "int option"
  b_timestamp :: "string option"
  b_transactions :: "tx_dict list option"
  b_previous_hash :: "string option"
  b_nonce :: "int option"
  b_hash :: "string option"

record snapshot =
  s_difficulty :: "int option"
  s_reward :: "pyfloat option"
  s_users :: "string list option"
  s_pending :: "tx_dict list option"
  s_chain :: "block_dict list option"

definition tx_to_dict :: "transaction \<Rightarrow> tx_dict" where
  \<comment> \<open>\<^verbatim>\<open>Transaction.to_dict\<close>, that is \<^verbatim>\<open>asdict\<close>\<close>
  "tx_to_dict t =
     \<lparr>d_sender = Some (sender t), d_recipient = Some (recipient t), d_amount = Some (amount t),
      d_note = Some (tx_note t), d_timestamp = Some (tx_timestamp t)\<rparr>"

definition tx_from_dict :: "tx_dict \<Rightarrow> error + transaction" where
  \<comment> \<open>\<^verbatim>\<open>Transaction(**d)\<close>: the first three fields are required, the last two default to
      the empty string\<close>
  "tx_from_dict d =
     (case (d_sender d, d_recipient d, d_amount d) of
        (Some s, Some r, Some a) \<Rightarrow>
          Inr \<lparr>sender = s, recipient = r, amount = a,
               tx_note = (case d_note d of None \<Rightarrow> [] | Some n \<Rightarrow> n),
               tx_timestamp = (case d_timestamp d of None \<Rightarrow> [] | Some ts \<Rightarrow> ts)\<rparr>
      | _ \<Rightarrow> Inl TypeError)"

fun map_result :: "('a \<Rightarrow> error + 'b) \<Rightarrow> 'a list \<Rightarrow> error + 'b list" where
  \<comment> \<open>a list comprehension whose body may raise: the first exception ends it\<close>
  "map_result f [] = Inr []"
| "map_result f (x # xs) =
     (case f x of
        Inl e \<Rightarrow> Inl e
      | Inr y \<Rightarrow> (case map_result f xs of Inl e \<Rightarrow> Inl e | Inr ys \<Rightarrow> Inr (y # ys)))"

definition block_to_dict :: "block \<Rightarrow> block_dict" where
  \<comment> \<open>\<^verbatim>\<open>Block.to_dict\<close>\<close>
  "block_to_dict b =
     \<lparr>b_index = Some (index b), b_timestamp = Some (timestamp b),
      b_transactions = Some (map tx_to_dict (transactions b)),
      b_previous_hash = Some (previous_hash b), b_nonce = Some (nonce b),
      b_hash = Some (hash b)\<rparr>"

definition subscript :: "string \<Rightarrow> 'a option \<Rightarrow> error + 'a" where
  \<comment> \<open>\<^verbatim>\<open>d[key]\<close>\<close>
  "subscript key v = (case v of None \<Rightarrow> Inl (KeyError key) | Some x \<Rightarrow> Inr x)"

definition and_then :: "error + 'a \<Rightarrow> ('a \<Rightarrow> error + 'b) \<Rightarrow> error + 'b" where
  \<comment> \<open>sequencing: an exception ends the evaluation\<close>
  "and_then r f = (case r of Inl e \<Rightarrow> Inl e | Inr x \<Rightarrow> f x)"

definition block_from_dict :: "block_dict \<Rightarrow> error + block" where
  \<comment> \<open>\<^verbatim>\<open>Block.from_dict\<close>: the keys are read in the order of the arguments, and the first
      one missing raises \<^verbatim>\<open>KeyError\<close>\<close>
  "block_from_dict d =
     and_then (subscript ''index'' (b_index d)) (\<lambda>i.
     and_then (subscript ''timestamp'' (b_timestamp d)) (\<lambda>ts.
     and_then (subscript ''transactions'' (b_transactions d)) (\<lambda>tds.
     and_then (map_result tx_from_dict tds) (\<lambda>txs.
     and_then (subscript ''previous_hash'' (b_previous_hash d)) (\<lambda>prev.
     and_then (subscript ''nonce'' (b_nonce d)) (\<lambda>n.
     and_then (subscript ''hash'' (b_hash d)) (\<lambda>h.
       Inr \<lparr>index = i, timestamp = ts, transactions = txs, previous_hash = prev,
            nonce = n, hash = h\<rparr>)))))))"

definition to_dict :: "blockchain \<Rightarrow> snapshot" where
  \<comment> \<open>\<^verbatim>\<open>Blockchain.to_dict\<close>\<close>
  "to_dict bc =
     \<lparr>s_difficulty = Some (int (difficulty bc)), s_reward = Some (reward bc),
      s_users = Some (sorted_list_of_fset (users bc)),
      s_pending = Some (map tx_to_dict (pending bc)),
      s_chain = Some (map block_to_dict (chain bc))\<rparr>"

definition get_default :: "'a option \<Rightarrow> 'a \<Rightarrow> 'a" where
  \<comment> \<open>\<^verbatim>\<open>d.get(key, default)\<close>\<close>
  "get_default v dflt = (case v of None \<Rightarrow> dflt | Some x \<Rightarrow> x)"

definition from_dict :: "snapshot \<Rightarrow> string \<Rightarrow> string \<Rightarrow> error + blockchain" where
  \<comment> \<open>\<^verbatim>\<open>Blockchain.from_dict\<close>; the constructor it calls reads the clock twice\<close>
  "from_dict d now1 now2 =
     (let bc = Blockchain (get_default (s_difficulty d) 2) (get_default (s_reward d) (Finite 10))
                 now1 now2;
          bc = bc\<lparr>users := fset_of_list (get_default (s_users d) [])\<rparr>
      in case map_result tx_from_dict (get_default (s_pending d) []) of
           Inl e \<Rightarrow> Inl e
         | Inr p \<Rightarrow>
             (case map_result block_from_dict (get_default (s_chain d) []) of
                Inl e \<Rightarrow> Inl e
              | Inr c \<Rightarrow> Inr (bc\<lparr>pending := p, chain := c\<rparr>)))"

subsection \<open>The shell's \<^verbatim>\<open>load\<close>\<close>



subsection \<open>Sequences of calls\<close>

datatype op =
    AddUser string
  | AddTransaction string string amount_arg string string
  | Mine string string string

fun apply_op :: "blockchain \<Rightarrow> op \<Rightarrow> blockchain option" where
  \<comment> \<open>the ledger after one call; \<open>None\<close> when the call never returns\<close>
  "apply_op bc (AddUser name) = Some (snd (add_user bc name))"
| "apply_op bc (AddTransaction s r a n now) = Some (snd (add_transaction bc s r a n now))"
| "apply_op bc (Mine miner now1 now2) = map_option snd (mine bc miner now1 now2)"

fun run :: "blockchain \<Rightarrow> op list \<Rightarrow> blockchain option" where
  "run bc [] = Some bc"
| "run bc (c # cs) = (case apply_op bc c of None \<Rightarrow> None | Some bc' \<Rightarrow> run bc' cs)"

subsection \<open>The balance as the specification words it\<close>

definition committed :: "blockchain \<Rightarrow> transaction list" where
  \<comment> \<open>every committed transaction, in chain order\<close>
  "committed bc = concat (map transactions (chain bc))"

definition balance_spec :: "blockchain \<Rightarrow> string \<Rightarrow> pyfloat" where
  \<comment> \<open>the fold of the specification: over the whole chain from zero, then minus each
      pending amount sent by \<open>name\<close>, rounded\<close>
  "balance_spec bc name =
     round8 (foldl (\<lambda>acc tx. fsub acc (amount tx))
               (foldl (\<lambda>acc tx.
                    let acc = (if sender tx = name then fsub acc (amount tx) else acc)
                    in if recipient tx = name then fadd acc (amount tx) else acc)
                  (Finite 0) (committed bc))
               (filter (\<lambda>tx. sender tx = name) (pending bc)))"

subsection \<open>Records that import accepts\<close>




subsection \<open>Predicates and example ledgers of the properties\<close>

definition consistent :: "block \<Rightarrow> bool" where
  \<comment> \<open>the stored hash is the hasher's output for the stored fields\<close>
  "consistent b \<longleftrightarrow>
     hash b = hash_block (index b) (timestamp b) (transactions b) (previous_hash b) (nonce b)"

definition reward_tx :: "blockchain \<Rightarrow> string \<Rightarrow> string \<Rightarrow> transaction" where
  \<comment> \<open>the reward transaction \<open>mine\<close> builds\<close>
  "reward_tx bc miner now =
     \<lparr>sender = ''SYSTEM'', recipient = miner, amount = reward bc,
      tx_note = ''Mining reward'', tx_timestamp = now\<rparr>"

definition genesis_block :: "block \<Rightarrow> bool" where
  "genesis_block b \<longleftrightarrow>
     index b = 0 \<and> previous_hash b = replicate 64 CHR ''0'' \<and>
     (case transactions b of
        [tx] \<Rightarrow> sender tx = ''SYSTEM'' \<and> recipient tx = ''GENESIS'' \<and> amount tx = Finite 0
      | _ \<Rightarrow> False)"

definition chain_linked :: "block list \<Rightarrow> bool" where
  "chain_linked bs \<longleftrightarrow>
     bs \<noteq> [] \<and> genesis_block (hd bs) \<and>
     (\<forall>i<length bs. index (bs ! i) = int i) \<and>
     (\<forall>i<length bs. 0 < i \<longrightarrow> previous_hash (bs ! i) = hash (bs ! (i - 1)))"

text \<open>
  \<^verbatim>\<open>Blockchain(0, 10.0)\<close> with \<open>alice\<close> registered; the same with one faucet payment
  pending; and \<^verbatim>\<open>Blockchain(65, 10.0)\<close> with \<open>alice\<close> registered.
\<close>

definition ledger0 :: blockchain where
  "ledger0 = snd (add_user (Blockchain 0 (Finite 10) ''t0'' ''t1'') ''alice'')"

definition ledger1 :: blockchain where
  "ledger1 =
     snd (add_transaction ledger0 ''SYSTEM'' ''alice'' (Parsed (Finite 50)) ''Faucet'' ''t2'')"

definition ledger65 :: blockchain where
  "ledger65 = snd (add_user (Blockchain 65 (Finite 10) ''t0'' ''t1'') ''alice'')"

definition block1 :: block where
  \<comment> \<open>the block \<open>mine\<close> builds on \<open>ledger0\<close> for \<open>alice\<close> at the times \<open>t2\<close>, \<open>t3\<close>\<close>
  "block1 =
     new_block ledger0 ''t3'' (hash (last (chain ledger0)))
       (pending ledger0 @ [reward_tx ledger0 ''alice'' ''t2''])"

section \<open>Properties\<close>

subsection \<open>Admission leaves the ledger alone\<close>

text \<open>
  C5. A call of \<open>add_transaction\<close> that returns a message leaves the whole ledger as it
  was; a call that succeeds appends exactly one transaction to \<open>pending\<close> and changes
  neither \<open>chain\<close> nor \<open>users\<close> nor \<open>difficulty\<close> nor \<open>reward\<close>.
\<close>

theorem add_transaction_frame:
  "add_transaction bc s r a n now = (res, bc') \<Longrightarrow>
     (res \<noteq> None \<longrightarrow> bc' = bc) \<and>
     (res = None \<longrightarrow>
        (\<exists>tx. pending bc' = pending bc @ [tx]) \<and> chain bc' = chain bc \<and> users bc' = users bc \<and>
        difficulty bc' = difficulty bc \<and> reward bc' = reward bc)"
  by (auto simp: add_transaction_def Let_def split: amount_arg.splits if_splits)

theorem add_transaction_frame_witness:
  "add_transaction (Blockchain 2 (Finite 10) ''t0'' ''t1'') ''alice'' ''bob''
       (Parsed (Finite (- 5))) [] ''t2''
     = (Some ''Amount must be positive.'', Blockchain 2 (Finite 10) ''t0'' ''t1'')
   \<and> snd (add_transaction (Blockchain 2 (Finite 10) ''t0'' ''t1'') ''alice'' ''bob''
       (Parsed (Finite (- 5))) [] ''t2'') = Blockchain 2 (Finite 10) ''t0'' ''t1''"
proof -
  have e: "add_transaction (Blockchain 2 (Finite 10) ''t0'' ''t1'') ''alice'' ''bob''
       (Parsed (Finite (- 5))) [] ''t2''
     = (Some ''Amount must be positive.'', Blockchain 2 (Finite 10) ''t0'' ''t1'')"
    by (simp add: add_transaction_def)
  from add_transaction_frame [OF e] e show ?thesis by simp
qed

subsection \<open>An unknown miner\<close>

text \<open>
  C6. For a name that is not in \<open>users\<close>, \<open>mine\<close> raises \<^verbatim>\<open>ValueError\<close> (an exception, not
  a returned message) and the ledger, so its \<open>chain\<close> and \<open>pending\<close>, is as before.
\<close>

theorem mine_unknown_miner:
  "miner |\<notin>| users bc \<Longrightarrow>
     mine bc miner now1 now2 = Some (Inl (ValueError ''Miner must be a known user.''), bc)"
  by (simp add: mine_def)

theorem mine_unknown_miner_witness:
  "mine (Blockchain 2 (Finite 10) ''t0'' ''t1'') ''carol'' ''t2'' ''t3''
     = Some (Inl (ValueError ''Miner must be a known user.''), Blockchain 2 (Finite 10) ''t0'' ''t1'')"
proof -
  have "''carol'' |\<notin>| users (Blockchain 2 (Finite 10) ''t0'' ''t1'')"
    by (simp add: Blockchain_def create_genesis_def Let_def)
  then show ?thesis by (rule mine_unknown_miner)
qed

subsection \<open>Reserved names\<close>

text \<open>
  C10. Registration rejects a name exactly when, after trimming, it is empty, or its
  upper-case form is \<open>SYSTEM\<close>, or it is registered already. In particular \<open>GENESIS\<close>,
  when it is not registered yet, is accepted and added to \<open>users\<close>.
\<close>

theorem add_user_reserved:
  "(fst (add_user bc name) \<longleftrightarrow>
      strip name \<noteq> [] \<and> upper (strip name) \<noteq> ''SYSTEM'' \<and> strip name |\<notin>| users bc) \<and>
   (''GENESIS'' |\<notin>| users bc \<longrightarrow>
      add_user bc ''GENESIS'' = (True, bc\<lparr>users := finsert ''GENESIS'' (users bc)\<rparr>))"
  by (simp add: add_user_def Let_def strip_def upper_def upper_char_def py_isspace_def)

theorem add_user_reserved_witness:
  "''GENESIS'' |\<notin>| users (Blockchain 2 (Finite 10) ''t0'' ''t1'') \<and>
   add_user (Blockchain 2 (Finite 10) ''t0'' ''t1'') ''GENESIS''
     = (True, (Blockchain 2 (Finite 10) ''t0'' ''t1'')\<lparr>users := {|''GENESIS''|}\<rparr>)"
proof -
  have u: "users (Blockchain 2 (Finite 10) ''t0'' ''t1'') = {||}"
    by (simp add: Blockchain_def create_genesis_def Let_def)
  from add_user_reserved [of "Blockchain 2 (Finite 10) ''t0'' ''t1''" "''GENESIS''"] u
  show ?thesis by simp
qed

subsection \<open>Balances\<close>

lemma foldl_blocks:
  "foldl (\<lambda>acc blk. foldl f acc (transactions blk)) a bs = foldl f a (concat (map transactions bs))"
  by (induction bs arbitrary: a) simp_all

lemma foldl_pending:
  "foldl (pending_step name) a ps
     = foldl (\<lambda>acc tx. fsub acc (amount tx)) a (filter (\<lambda>tx. sender tx = name) ps)"
  by (induction ps arbitrary: a) (simp_all add: pending_step_def)

lemma foldl_chain_unnamed:
  "\<forall>tx\<in>set txs. sender tx \<noteq> name \<and> recipient tx \<noteq> name \<Longrightarrow>
     foldl (chain_step name) a txs = a"
  by (induction txs arbitrary: a) (simp_all add: chain_step_def)

lemma get_balance_refines: "get_balance bc name = balance_spec bc name"
  unfolding get_balance_def balance_spec_def committed_def Let_def foldl_blocks foldl_pending
  by (simp add: chain_step_def [abs_def] Let_def)

lemma round8_zero: "round8 (Finite 0) = Finite 0"
  by (simp add: round_half_even_def)

lemma proof_of_work_empty: "proof_of_work [] blk = Some blk"
  by (subst proof_of_work.simps) (simp add: startswith_def)

lemma fl_m10: "fl (- 10) = Finite (- 10)"
  by code_simp

lemma round8_m10: "round8 (Finite (- 10)) = Finite (- 10)"
  by code_simp

text \<open>
  C3, as the code has it. For every name, registered or not, \<open>get_balance\<close> is the fold of
  the specification: over the whole chain from zero (minus the amount where the name is
  the sender, plus the amount where it is the recipient), then minus the pending amounts
  the name sends, rounded to 8 decimals; there is no error. The result is zero when no
  committed transaction names the name and no pending transaction is sent by it. It need
  not be zero for a name that is not registered.
\<close>

theorem get_balance_fold:
  "get_balance bc name = balance_spec bc name \<and>
   ((\<forall>tx\<in>set (committed bc). sender tx \<noteq> name \<and> recipient tx \<noteq> name) \<and>
    (\<forall>tx\<in>set (pending bc). sender tx \<noteq> name) \<longrightarrow> get_balance bc name = Finite 0)"
proof (intro conjI impI)
  show "get_balance bc name = balance_spec bc name" by (rule get_balance_refines)
next
  assume h: "(\<forall>tx\<in>set (committed bc). sender tx \<noteq> name \<and> recipient tx \<noteq> name) \<and>
    (\<forall>tx\<in>set (pending bc). sender tx \<noteq> name)"
  then have "filter (\<lambda>tx. sender tx = name) (pending bc) = []"
    by (simp add: filter_empty_conv)
  moreover from h have "foldl (chain_step name) (Finite 0) (committed bc) = Finite 0"
    by (simp add: foldl_chain_unnamed)
  ultimately have "get_balance bc name = round8 (Finite 0)"
    unfolding get_balance_def Let_def foldl_blocks foldl_pending committed_def
    by (simp del: round8.simps)
  then show "get_balance bc name = Finite 0"
    by (simp only: round8_zero)
qed

theorem get_balance_fold_witness:
  "get_balance (Blockchain 2 (Finite 10) ''t0'' ''t1'') ''bob''
     = balance_spec (Blockchain 2 (Finite 10) ''t0'' ''t1'') ''bob'' \<and>
   get_balance (Blockchain 2 (Finite 10) ''t0'' ''t1'') ''bob'' = Finite 0"
proof -
  let ?B = "Blockchain 2 (Finite 10) ''t0'' ''t1''"
  have c: "\<forall>tx\<in>set (committed ?B). sender tx \<noteq> ''bob'' \<and> recipient tx \<noteq> ''bob''"
    by (simp add: committed_def Blockchain_def create_genesis_def new_block_def Let_def)
  have p: "\<forall>tx\<in>set (pending ?B). sender tx \<noteq> ''bob''"
    by (simp add: Blockchain_def create_genesis_def Let_def)
  from get_balance_fold [of ?B "''bob''"] c p show ?thesis by blast
qed

text \<open>
  The claim's last clause fails: after one block mined for \<open>alice\<close> with reward 10, the
  name \<open>SYSTEM\<close>, which is not (and cannot be) registered, has balance -10.
\<close>

theorem get_balance_system_counterexample:
  "map_option (\<lambda>bc. (''SYSTEM'' |\<in>| users bc, get_balance bc ''SYSTEM''))
     (run (Blockchain 0 (Finite 10) ''t0'' ''t1'') [AddUser ''alice'', Mine ''alice'' ''t2'' ''t3''])
   = Some (False, Finite (- 10))"
  by (simp add: Blockchain_def create_genesis_def new_block_def add_user_def strip_def
      upper_def upper_char_def py_isspace_def mine_def Let_def proof_of_work_empty
      get_balance_def chain_step_def pending_step_def fsub_def fl_m10 round8_m10
      del: round8.simps)

subsection \<open>Export, then import\<close>

lemma tx_roundtrip: "tx_from_dict (tx_to_dict t) = Inr t"
  by (simp add: tx_from_dict_def tx_to_dict_def)

lemma txs_roundtrip: "map_result tx_from_dict (map tx_to_dict ts) = Inr ts"
  by (induction ts) (simp_all add: tx_roundtrip)

lemma block_roundtrip: "block_from_dict (block_to_dict b) = Inr b"
  by (simp add: block_from_dict_def block_to_dict_def subscript_def and_then_def txs_roundtrip)

lemma blocks_roundtrip: "map_result block_from_dict (map block_to_dict bs) = Inr bs"
  by (induction bs) (simp_all add: block_roundtrip)

lemma users_roundtrip: "fset_of_list (sorted_list_of_fset S) = S"
  by (simp add: fset_eq_iff fset_of_list.rep_eq sorted_list_of_fset.rep_eq)

text \<open>
  C7. Importing what \<open>to_dict\<close> exports gives the ledger back: the same chain (every
  block with its fields and hash, in order), the same users, the same pending
  transactions in order, the same difficulty and reward.
\<close>

theorem export_import_roundtrip: "from_dict (to_dict bc) now1 now2 = Inr bc"
  by (simp add: from_dict_def to_dict_def get_default_def txs_roundtrip blocks_roundtrip
      users_roundtrip Blockchain_def create_genesis_def Let_def)

subsection \<open>Import of a malformed snapshot\<close>









subsection \<open>The digest has 64 characters\<close>

lemma length_sha_round: "length st = 8 \<Longrightarrow> length (sha_round st kw) = 8"
proof -
  assume "length st = 8"
  then obtain a b c d e f g h where "st = [a, b, c, d, e, f, g, h]"
    by (auto simp: length_Suc_conv numeral_eq_Suc)
  then show ?thesis by (cases kw) (simp add: Let_def)
qed

lemma length_foldl_sha_round: "length st = 8 \<Longrightarrow> length (foldl sha_round st kws) = 8"
  by (induction kws arbitrary: st) (simp_all add: length_sha_round)

lemma length_compress: "length st = 8 \<Longrightarrow> length (compress st blk) = 8"
  by (simp add: compress_def length_foldl_sha_round)

lemma length_foldl_compress: "length st = 8 \<Longrightarrow> length (foldl compress st blks) = 8"
  by (induction blks arbitrary: st) (simp_all add: length_compress)

lemma length_concat_hex: "length (concat (map hex_word ws)) = 8 * length ws"
  by (induction ws) (simp_all add: hex_word_def)

lemma length_sha256_hexdigest: "length (sha256_hexdigest bs) = 64"
  by (simp add: sha256_hexdigest_def length_concat_hex length_foldl_compress sha_H0_def)

lemma length_hash_block: "length (hash_block i ts txs prev n) = 64"
  by (simp add: hash_block_def Let_def length_sha256_hexdigest)

subsection \<open>The proof-of-work loop\<close>

lemma bump_fields:
  "index (bump b) = index b" "timestamp (bump b) = timestamp b"
  "transactions (bump b) = transactions b" "previous_hash (bump b) = previous_hash b"
  "nonce (bump b) = nonce b + 1" "consistent (bump b)"
  by (simp_all add: bump_def consistent_def Let_def)

lemma funpow_bump_fields:
  "index ((bump ^^ k) b) = index b \<and> timestamp ((bump ^^ k) b) = timestamp b \<and>
   transactions ((bump ^^ k) b) = transactions b \<and>
   previous_hash ((bump ^^ k) b) = previous_hash b \<and>
   nonce ((bump ^^ k) b) = nonce b + int k \<and>
   (consistent b \<longrightarrow> consistent ((bump ^^ k) b))"
  by (induction k) (simp_all add: bump_fields)

lemma proof_of_work_steps:
  assumes "proof_of_work p blk = Some b"
  shows "\<exists>k. b = (bump ^^ k) blk \<and> startswith (hash b) p"
proof (rule proof_of_work.raw_induct
    [where P = "\<lambda>p blk b. \<exists>k. b = (bump ^^ k) blk \<and> startswith (hash b) p", OF _ assms])
  fix f p blk y
  assume IH: "\<And>p blk y. f p blk = Some y \<Longrightarrow> \<exists>k. y = (bump ^^ k) blk \<and> startswith (hash y) p"
    and eq: "(if \<not> startswith (hash blk) p then f p (bump blk) else Some blk) = Some y"
  show "\<exists>k. y = (bump ^^ k) blk \<and> startswith (hash y) p"
  proof (cases "startswith (hash blk) p")
    case True
    with eq have "y = (bump ^^ 0) blk \<and> startswith (hash y) p" by simp
    then show ?thesis by blast
  next
    case False
    with eq have "f p (bump blk) = Some y" by simp
    from IH [OF this] obtain k where "y = (bump ^^ k) (bump blk)" "startswith (hash y) p"
      by blast
    then have "y = (bump ^^ Suc k) blk \<and> startswith (hash y) p"
      by (simp add: funpow_swap1)
    then show ?thesis by blast
  qed
qed

lemma proof_of_work_found:
  "startswith (hash ((bump ^^ k) blk)) p \<Longrightarrow>
     \<exists>j\<le>k. proof_of_work p blk = Some ((bump ^^ j) blk)"
proof (induction k arbitrary: blk)
  case 0
  then have "proof_of_work p blk = Some ((bump ^^ 0) blk)"
    by (subst proof_of_work.simps) simp
  then show ?case by blast
next
  case (Suc k)
  show ?case
  proof (cases "startswith (hash blk) p")
    case True
    then have "proof_of_work p blk = Some ((bump ^^ 0) blk)"
      by (subst proof_of_work.simps) simp
    then show ?thesis by blast
  next
    case False
    from Suc.prems have "startswith (hash ((bump ^^ k) (bump blk))) p"
      by (simp add: funpow_swap1)
    from Suc.IH [OF this] obtain j where j: "j \<le> k"
      "proof_of_work p (bump blk) = Some ((bump ^^ j) (bump blk))" by blast
    from False have "proof_of_work p blk = proof_of_work p (bump blk)"
      by (subst proof_of_work.simps) simp
    with j have "proof_of_work p blk = Some ((bump ^^ Suc j) blk)"
      by (simp add: funpow_swap1)
    with j(1) show ?thesis by (metis Suc_le_mono)
  qed
qed

lemma proof_of_work_never:
  assumes "length (hash blk) < length p"
    and "\<And>b. length (hash (bump b)) < length p"
  shows "proof_of_work p blk = None"
proof (rule ccontr)
  assume "proof_of_work p blk \<noteq> None"
  then obtain b where "proof_of_work p blk = Some b" by blast
  from proof_of_work_steps [OF this] obtain k where k: "b = (bump ^^ k) blk"
    "startswith (hash b) p" by blast
  have "length (hash ((bump ^^ k) blk)) < length p"
    using assms by (cases k) simp_all
  with k show False by (auto simp: startswith_def prefix_def)
qed

lemma startswith_empty [simp]: "startswith s []"
  by (simp add: startswith_def)

lemma ledger0_fields:
  "users ledger0 = {|''alice''|}" "pending ledger0 = []" "difficulty ledger0 = 0"
  "reward ledger0 = Finite 10" "length (chain ledger0) = 1"
  by (simp_all add: ledger0_def Blockchain_def create_genesis_def add_user_def strip_def
      upper_def upper_char_def py_isspace_def Let_def)

lemma ledger0_chain: "chain ledger0 \<noteq> []"
  using ledger0_fields(5) by auto

lemma ledger1_fields:
  "users ledger1 = {|''alice''|}" "length (pending ledger1) = 1" "difficulty ledger1 = 0"
  "chain ledger1 \<noteq> []"
  by (simp_all add: ledger1_def add_transaction_def ledger0_fields ledger0_chain)

subsection \<open>The mined block\<close>

text \<open>
  C2. A block that \<open>mine\<close> returns carries the hash the hasher gives for its stored
  \<open>index\<close>, \<open>timestamp\<close>, \<open>transactions\<close>, \<open>previous_hash\<close> and \<open>nonce\<close>, and the first
  \<open>difficulty\<close> characters of that hash are all \<open>0\<close>. With difficulty 0 the first hash
  computed is accepted and \<open>nonce\<close> stays 0.
\<close>

theorem mined_block_hash:
  assumes "mine bc miner now1 now2 = Some (Inr b, bc')"
  shows "hash b = hash_block (index b) (timestamp b) (transactions b) (previous_hash b) (nonce b) \<and>
         startswith (hash b) (replicate (difficulty bc) CHR ''0'') \<and>
         take (difficulty bc) (hash b) = replicate (difficulty bc) CHR ''0'' \<and>
         (difficulty bc = 0 \<longrightarrow> nonce b = 0)"
proof -
  let ?txs = "pending bc @ [reward_tx bc miner now1]"
  let ?blk = "new_block bc now2 (hash (last (chain bc))) ?txs"
  let ?p = "replicate (difficulty bc) CHR ''0''"
  from assms have pw: "proof_of_work ?p ?blk = Some b"
    by (auto simp: mine_def Let_def reward_tx_def split: if_splits option.splits)
  from proof_of_work_steps [OF pw] obtain k where k: "b = (bump ^^ k) ?blk"
    and sw: "startswith (hash b) ?p" by blast
  have "consistent ?blk" by (simp add: consistent_def new_block_def Let_def)
  with k have c: "consistent b" using funpow_bump_fields [of k ?blk] by simp
  from sw have tk: "take (difficulty bc) (hash b) = ?p"
    by (auto simp: startswith_def prefix_def)
  have z: "difficulty bc = 0 \<longrightarrow> nonce b = 0"
  proof
    assume "difficulty bc = 0"
    then have "proof_of_work ?p ?blk = Some ?blk"
      by (subst proof_of_work.simps) simp
    with pw have "b = ?blk" by simp
    then show "nonce b = 0" by (simp add: new_block_def Let_def)
  qed
  from c sw tk z show ?thesis by (simp add: consistent_def)
qed

theorem mined_block_hash_witness:
  "mine ledger0 ''alice'' ''t2'' ''t3''
     = Some (Inr block1, ledger0\<lparr>chain := chain ledger0 @ [block1], pending := []\<rparr>) \<and>
   hash block1 = hash_block (index block1) (timestamp block1) (transactions block1)
                   (previous_hash block1) (nonce block1) \<and>
   nonce block1 = 0"
proof -
  have m: "mine ledger0 ''alice'' ''t2'' ''t3''
     = Some (Inr block1, ledger0\<lparr>chain := chain ledger0 @ [block1], pending := []\<rparr>)"
    by (simp add: mine_def Let_def block1_def reward_tx_def ledger0_fields ledger0_chain
        proof_of_work_empty)
  from mined_block_hash [OF m] m show ?thesis by (simp add: ledger0_fields)
qed

subsection \<open>Mining commits one block\<close>

text \<open>
  C1, as the code has it. Take a ledger with a non-empty chain and a registered \<open>miner\<close>,
  with N pending transactions. If some nonce \<open>n \<ge> 0\<close> gives the new block a hash that
  starts with \<open>difficulty\<close> zeros (any nonce does when the difficulty is 0), then \<open>mine\<close>
  returns a block and the ledger is the old one with that block appended to \<open>chain\<close> and
  \<open>pending\<close> empty, nothing else changed. The block holds the N pending transactions in
  their order followed by the reward transaction (\<open>SYSTEM\<close> to \<open>miner\<close>, the ledger's
  reward, note \<open>Mining reward\<close>), N + 1 in all; its index is the old chain length and its
  nonce is at most \<open>n\<close>.
\<close>

theorem mine_commits:
  assumes "miner |\<in>| users bc" and "chain bc \<noteq> []"
    and "startswith (hash_block (int (length (chain bc))) now2
           (pending bc @ [reward_tx bc miner now1]) (hash (last (chain bc))) (int n))
           (replicate (difficulty bc) CHR ''0'')"
  shows "\<exists>b. mine bc miner now1 now2
               = Some (Inr b, bc\<lparr>chain := chain bc @ [b], pending := []\<rparr>) \<and>
             transactions b = pending bc @ [reward_tx bc miner now1] \<and>
             length (transactions b) = length (pending bc) + 1 \<and>
             index b = int (length (chain bc)) \<and>
             previous_hash b = hash (last (chain bc)) \<and>
             timestamp b = now2 \<and> 0 \<le> nonce b \<and> nonce b \<le> int n"
proof -
  let ?txs = "pending bc @ [reward_tx bc miner now1]"
  let ?blk = "new_block bc now2 (hash (last (chain bc))) ?txs"
  let ?p = "replicate (difficulty bc) CHR ''0''"
  have c0: "consistent ?blk" by (simp add: consistent_def new_block_def Let_def)
  have f: "index ((bump ^^ n) ?blk) = int (length (chain bc))"
    "timestamp ((bump ^^ n) ?blk) = now2" "transactions ((bump ^^ n) ?blk) = ?txs"
    "previous_hash ((bump ^^ n) ?blk) = hash (last (chain bc))"
    "nonce ((bump ^^ n) ?blk) = int n" "consistent ((bump ^^ n) ?blk)"
    using funpow_bump_fields [of n ?blk] c0 by (simp_all add: new_block_def Let_def)
  from f assms(3) have "startswith (hash ((bump ^^ n) ?blk)) ?p"
    by (simp add: consistent_def)
  from proof_of_work_found [OF this] obtain j where j: "j \<le> n"
    "proof_of_work ?p ?blk = Some ((bump ^^ j) ?blk)" by blast
  let ?b = "(bump ^^ j) ?blk"
  have g: "index ?b = int (length (chain bc))"
    "timestamp ?b = now2" "transactions ?b = ?txs"
    "previous_hash ?b = hash (last (chain bc))" "nonce ?b = int j"
    using funpow_bump_fields [of j ?blk] by (simp_all add: new_block_def Let_def)
  from assms(1,2) j(2)
  have "mine bc miner now1 now2 = Some (Inr ?b, bc\<lparr>chain := chain bc @ [?b], pending := []\<rparr>)"
    by (simp add: mine_def Let_def reward_tx_def)
  with g j(1) show ?thesis by auto
qed

theorem mine_commits_witness:
  "\<exists>b. mine ledger1 ''alice'' ''t3'' ''t4''
          = Some (Inr b, ledger1\<lparr>chain := chain ledger1 @ [b], pending := []\<rparr>) \<and>
       transactions b = pending ledger1 @ [reward_tx ledger1 ''alice'' ''t3''] \<and>
       length (transactions b) = 2 \<and> nonce b = 0"
proof -
  from mine_commits [of "''alice''" ledger1 "''t4''" "''t3''" 0]
  obtain b where "mine ledger1 ''alice'' ''t3'' ''t4''
          = Some (Inr b, ledger1\<lparr>chain := chain ledger1 @ [b], pending := []\<rparr>)"
    "transactions b = pending ledger1 @ [reward_tx ledger1 ''alice'' ''t3'']"
    "length (transactions b) = length (pending ledger1) + 1" "0 \<le> nonce b" "nonce b \<le> 0"
    by (auto simp: ledger1_fields)
  then show ?thesis by (intro exI [of _ b]) (simp add: ledger1_fields)
qed

text \<open>
  The claim fails for "every ledger state": the digest has 64 characters, so with
  difficulty 65 no hash is ever accepted and \<open>mine\<close> does not return.
\<close>

theorem mine_diverges_counterexample: "mine ledger65 ''alice'' ''t2'' ''t3'' = None"
proof -
  have u: "''alice'' |\<in>| users ledger65" "chain ledger65 \<noteq> []" "difficulty ledger65 = 65"
    by (simp_all add: ledger65_def Blockchain_def create_genesis_def add_user_def strip_def
        upper_def upper_char_def py_isspace_def Let_def)
  let ?blk = "new_block ledger65 ''t3'' (hash (last (chain ledger65)))
                (pending ledger65 @ [reward_tx ledger65 ''alice'' ''t2''])"
  have "proof_of_work (replicate 65 CHR ''0'') ?blk = None"
    by (rule proof_of_work_never)
      (simp_all add: new_block_def bump_def Let_def length_hash_block)
  with u show ?thesis by (simp add: mine_def Let_def reward_tx_def)
qed

subsection \<open>The chain of a reachable ledger\<close>

lemma mine_cases:
  assumes "mine bc miner now1 now2 = Some (r, bc')"
  shows "bc' = bc \<or>
         (\<exists>b. bc' = bc\<lparr>chain := chain bc @ [b], pending := []\<rparr> \<and> chain bc \<noteq> [] \<and>
              index b = int (length (chain bc)) \<and> previous_hash b = hash (last (chain bc)))"
proof (cases "miner |\<in>| users bc \<and> chain bc \<noteq> []")
  case False
  with assms show ?thesis by (auto simp: mine_def Let_def split: if_splits)
next
  case True
  let ?blk = "new_block bc now2 (hash (last (chain bc))) (pending bc @ [reward_tx bc miner now1])"
  from True assms obtain b where pw: "proof_of_work (replicate (difficulty bc) CHR ''0'') ?blk = Some b"
    and bc': "bc' = bc\<lparr>chain := chain bc @ [b], pending := []\<rparr>"
    by (auto simp: mine_def Let_def reward_tx_def split: option.splits)
  from proof_of_work_steps [OF pw] obtain k where "b = (bump ^^ k) ?blk" by blast
  then have "index b = int (length (chain bc))" "previous_hash b = hash (last (chain bc))"
    using funpow_bump_fields [of k ?blk] by (simp_all add: new_block_def Let_def)
  with bc' True show ?thesis by blast
qed

lemma chain_linked_snoc:
  assumes "chain_linked bs" "index b = int (length bs)" "previous_hash b = hash (last bs)"
  shows "chain_linked (bs @ [b])"
proof -
  from assms(1) have ne: "bs \<noteq> []" by (simp add: chain_linked_def)
  have i: "\<forall>i<length (bs @ [b]). index ((bs @ [b]) ! i) = int i"
    using assms(1,2) by (auto simp: chain_linked_def nth_append less_Suc_eq)
  have l: "\<forall>i<length (bs @ [b]). 0 < i \<longrightarrow>
      previous_hash ((bs @ [b]) ! i) = hash ((bs @ [b]) ! (i - 1))"
  proof (intro allI impI)
    fix i assume "i < length (bs @ [b])" "0 < i"
    then consider "i < length bs" | "i = length bs" by fastforce
    then show "previous_hash ((bs @ [b]) ! i) = hash ((bs @ [b]) ! (i - 1))"
    proof cases
      case 1
      then have a: "(bs @ [b]) ! i = bs ! i" "(bs @ [b]) ! (i - 1) = bs ! (i - 1)"
        by (simp_all add: nth_append)
      from assms(1) 1 \<open>0 < i\<close> have "previous_hash (bs ! i) = hash (bs ! (i - 1))"
        by (simp add: chain_linked_def)
      with a show ?thesis by simp
    next
      case 2
      with ne assms(3) show ?thesis by (simp add: nth_append last_conv_nth)
    qed
  qed
  from ne assms(1) i l show ?thesis by (simp add: chain_linked_def)
qed

lemma chain_linked_init: "chain_linked (chain (Blockchain d r now1 now2))"
  by (simp add: chain_linked_def genesis_block_def Blockchain_def create_genesis_def
      new_block_def Let_def)

lemma apply_op_linked:
  assumes "chain_linked (chain bc)" "apply_op bc c = Some bc'"
  shows "chain_linked (chain bc')"
proof (cases c)
  case (AddUser name)
  with assms show ?thesis by (auto simp: add_user_def Let_def split: if_splits)
next
  case (AddTransaction s r a n now)
  with assms show ?thesis
    by (auto simp: add_transaction_def Let_def split: if_splits amount_arg.splits)
next
  case (Mine miner now1 now2)
  with assms(2) obtain r where "mine bc miner now1 now2 = Some (r, bc')" by auto
  from mine_cases [OF this] assms(1) show ?thesis
    by (auto intro: chain_linked_snoc)
qed

lemma run_linked: "chain_linked (chain bc) \<Longrightarrow> run bc cs = Some bc' \<Longrightarrow> chain_linked (chain bc')"
proof (induction cs arbitrary: bc)
  case Nil
  then show ?case by simp
next
  case (Cons c cs)
  then show ?case by (auto split: option.splits dest: apply_op_linked)
qed

text \<open>
  C9. In every ledger reached from a freshly constructed \<open>Blockchain\<close> by calls of
  \<open>add_user\<close>, \<open>add_transaction\<close> and \<open>mine\<close> that return, the chain is not empty, its
  first block is the genesis block (index 0, previous hash of 64 zeros, the single
  transaction \<open>SYSTEM\<close> to \<open>GENESIS\<close> of amount 0), every block's \<open>index\<close> is its position,
  and every later block's \<open>previous_hash\<close> is the \<open>hash\<close> of the block before it.
\<close>

theorem reachable_chain_linked:
  assumes "run (Blockchain d r now1 now2) cs = Some bc"
  shows "chain bc \<noteq> [] \<and> genesis_block (hd (chain bc)) \<and>
         (\<forall>i<length (chain bc). index (chain bc ! i) = int i) \<and>
         (\<forall>i<length (chain bc). 0 < i \<longrightarrow>
            previous_hash (chain bc ! i) = hash (chain bc ! (i - 1)))"
  using run_linked [OF chain_linked_init assms] by (simp add: chain_linked_def)

theorem reachable_chain_linked_witness:
  "\<exists>bc. run (Blockchain 0 (Finite 10) ''t0'' ''t1'')
           [AddUser ''alice'', AddTransaction ''SYSTEM'' ''alice'' (Parsed (Finite 50)) ''Faucet'' ''t2'',
            Mine ''alice'' ''t3'' ''t4''] = Some bc \<and>
        length (chain bc) = 2 \<and> index (chain bc ! 1) = 1 \<and>
        previous_hash (chain bc ! 1) = hash (chain bc ! 0)"
proof -
  obtain bc where r: "run (Blockchain 0 (Finite 10) ''t0'' ''t1'')
           [AddUser ''alice'', AddTransaction ''SYSTEM'' ''alice'' (Parsed (Finite 50)) ''Faucet'' ''t2'',
            Mine ''alice'' ''t3'' ''t4''] = Some bc" and l: "length (chain bc) = 2"
    by (simp add: Blockchain_def create_genesis_def new_block_def add_user_def strip_def
        upper_def upper_char_def py_isspace_def add_transaction_def mine_def Let_def
        proof_of_work_empty)
  from reachable_chain_linked [OF r] l
  have "index (chain bc ! 1) = 1 \<and> previous_hash (chain bc ! 1) = hash (chain bc ! 0)"
    by (metis One_nat_def diff_self_eq_0 less_numeral_extra(1) of_nat_1 one_less_numeral_iff semiring_norm(76))
  with r l show ?thesis by blast
qed

subsection \<open>Admission of a transaction\<close>

lemma not_fle_zero: "a \<noteq> NaN \<Longrightarrow> \<not> fle a (Finite 0) \<longleftrightarrow> flt (Finite 0) a"
  by (cases a) auto

lemma not_flt: "a \<noteq> NaN \<Longrightarrow> b \<noteq> NaN \<Longrightarrow> \<not> flt b a \<longleftrightarrow> fle a b"
  by (cases a; cases b) auto

lemma add_transaction_admits:
  assumes "a \<noteq> NaN" "get_balance bc s \<noteq> NaN"
  shows "fst (add_transaction bc s r (Parsed a) n now) = None \<longleftrightarrow>
           flt (Finite 0) a \<and> (s = ''SYSTEM'' \<or> s |\<in>| users bc) \<and>
           (r |\<in>| users bc \<or> r = ''GENESIS'') \<and>
           (s \<noteq> ''SYSTEM'' \<longrightarrow> fle a (get_balance bc s))"
  using not_fle_zero [OF assms(1)] not_flt [OF assms]
  by (auto simp: add_transaction_def Let_def)

text \<open>
  C4 at the input where the code leaves it. The amount NaN parses as a float and is not
  positive, yet \<open>add_transaction\<close> returns no message and queues the transaction: the
  test \<^verbatim>\<open>amount <= 0\<close> is false for NaN. (For every other amount, and a balance that is
  not NaN, the call succeeds exactly under the claim's conditions: \<open>add_transaction_admits\<close>.)
\<close>

theorem add_transaction_nan:
  "add_transaction ledger0 ''SYSTEM'' ''alice'' (Parsed NaN) ''Faucet'' ''t2''
     = (None, ledger0\<lparr>pending := [\<lparr>sender = ''SYSTEM'', recipient = ''alice'', amount = NaN,
                                    tx_note = ''Faucet'', tx_timestamp = ''t2''\<rparr>]\<rparr>)"
  by (simp add: add_transaction_def ledger0_fields)

end
